theory Spec2Isabelle
  imports Complex_Main "HOL-Library.AList"
begin

section \<open>Python values shared by the servers and the monitor\<close>

text \<open>
  Python floats are modelled as rationals. The code below only tests them for truth
  (\<open>x or d\<close>, \<open>if x:\<close>), compares them with constants and, in the summary report,
  adds and divides them; rounding is not modelled. Unbounded Python ints are \<open>int\<close>,
  lengths are \<open>nat\<close>. A dict read with \<open>d.get(k, default)\<close> is a map.
\<close>

type_synonym ('k, 'v) dict = "'k \<rightharpoonup> 'v"

definition dict_get :: "('k, 'v) dict \<Rightarrow> 'k \<Rightarrow> 'v \<Rightarrow> 'v" where
  "dict_get d k dflt = (case d k of None \<Rightarrow> dflt | Some v \<Rightarrow> v)"

text \<open>An exception raised by an external library, or by pydantic when a response model
  is built from values that do not have the declared types.\<close>

datatype exn = ValidationError | LibraryError string

text \<open>\<open>HTTPException(status_code=...)\<close>; the detail text is not modelled.\<close>

datatype http_error = HTTPException (status_code: nat)

text \<open>\<open>x or d\<close> on an \<open>Optional\<close> number: \<open>None\<close> and zero are both falsy.\<close>

definition py_or :: "'a::zero option \<Rightarrow> 'a \<Rightarrow> 'a" where
  "py_or x d = (case x of None \<Rightarrow> d | Some v \<Rightarrow> if v = 0 then d else v)"

section \<open>config.py\<close>

definition MODEL_NAME :: string where "MODEL_NAME = ''Qwen/Qwen2.5-32B-Instruct''"
definition MAX_TOKENS :: int where "MAX_TOKENS = 2048"
definition TEMPERATURE :: rat where "TEMPERATURE = 7 / 10"
definition TOP_P :: rat where "TOP_P = 9 / 10"
definition REPETITION_PENALTY :: rat where "REPETITION_PENALTY = 11 / 10"

datatype kwarg = KInt int | KFloat rat | KBool bool

definition get_generation_kwargs :: "(string, kwarg) dict" where
  "get_generation_kwargs =
     [''max_new_tokens'' \<mapsto> KInt MAX_TOKENS,
      ''temperature'' \<mapsto> KFloat TEMPERATURE,
      ''top_p'' \<mapsto> KFloat TOP_P,
      ''repetition_penalty'' \<mapsto> KFloat REPETITION_PENALTY,
      ''do_sample'' \<mapsto> KBool True,
      ''pad_token_id'' \<mapsto> KInt 151643,
      ''eos_token_id'' \<mapsto> KInt 151643]"

section \<open>Request and response models (model\_server.py, vllm\_server.py)\<close>

type_synonym message = "(string, string) dict"

record ChatRequest =
  messages :: "message list"
  max_tokens :: "int option"
  temperature :: "rat option"
  top_p :: "rat option"
  stream :: bool

text \<open>\<open>ChatResponse\<close>; \<open>processing_time\<close> is a wall-clock difference and is left out.\<close>

record ChatResponse =
  response :: string
  usage :: "(string, int) dict"
  model :: string

section \<open>format\_chat\_messages (the same function in both servers)\<close>

fun format_loop :: "message list \<Rightarrow> string \<Rightarrow> string" where
  "format_loop [] formatted_text = formatted_text"
| "format_loop (message # rest) formatted_text =
     (let role = dict_get message ''role'' '''';
          content = dict_get message ''content'' ''''
      in if role = ''user'' then
           format_loop rest
             (formatted_text @ ''<|im_start|>user\<newline>'' @ content @ ''<|im_end|>\<newline>'')
         else if role = ''assistant'' then
           format_loop rest
             (formatted_text @ ''<|im_start|>assistant\<newline>'' @ content @ ''<|im_end|>\<newline>'')
         else format_loop rest formatted_text)"

definition format_chat_messages :: "message list \<Rightarrow> string" where
  "format_chat_messages msgs = format_loop msgs '''' @ ''<|im_start|>assistant\<newline>''"

text \<open>The formatter as the specification words it: one block
  \<open><|im_start|>ROLE\nCONTENT<|im_end|>\n\<close> per turn whose role is user or assistant, in
  input order, then one open assistant marker.\<close>

definition turn_role :: "message \<Rightarrow> string" where
  "turn_role m = dict_get m ''role'' ''''"

definition turn_content :: "message \<Rightarrow> string" where
  "turn_content m = dict_get m ''content'' ''''"

definition role_block :: "string \<Rightarrow> string \<Rightarrow> string" where
  "role_block role content =
     ''<|im_start|>'' @ role @ ''\<newline>'' @ content @ ''<|im_end|>\<newline>''"

definition kept_turn :: "message \<Rightarrow> bool" where
  "kept_turn m = (turn_role m = ''user'' \<or> turn_role m = ''assistant'')"

definition format_spec :: "message list \<Rightarrow> string" where
  "format_spec msgs =
     concat (map (\<lambda>m. role_block (turn_role m) (turn_content m)) (filter kept_turn msgs))
     @ ''<|im_start|>assistant\<newline>''"

section \<open>Resolving the generation parameters\<close>

text \<open>vllm\_server.py builds \<open>SamplingParams(max_tokens=request.max_tokens or ..., ...)\<close>.\<close>

record SamplingParams =
  sp_max_tokens :: int
  sp_temperature :: rat
  sp_top_p :: rat
  sp_repetition_penalty :: rat
  sp_stop :: "string list"

definition sampling_params :: "ChatRequest \<Rightarrow> SamplingParams" where
  "sampling_params request =
     \<lparr> sp_max_tokens = py_or (max_tokens request) MAX_TOKENS,
       sp_temperature = py_or (temperature request) TEMPERATURE,
       sp_top_p = py_or (top_p request) TOP_P,
       sp_repetition_penalty = REPETITION_PENALTY,
       sp_stop = [''<|im_end|>'', ''<|endoftext|>''] \<rparr>"

text \<open>model\_server.py starts from \<open>ModelConfig.get_generation_kwargs()\<close> and overwrites
  an entry under \<open>if request.max_tokens:\<close> and its two siblings.\<close>

definition set_if_truthy ::
  "(string, kwarg) dict \<Rightarrow> string \<Rightarrow> ('a::zero \<Rightarrow> kwarg) \<Rightarrow> 'a option \<Rightarrow> (string, kwarg) dict" where
  "set_if_truthy kwargs key wrap x =
     (case x of None \<Rightarrow> kwargs
      | Some v \<Rightarrow> if v = 0 then kwargs else kwargs(key \<mapsto> wrap v))"

definition generation_kwargs :: "ChatRequest \<Rightarrow> (string, kwarg) dict" where
  "generation_kwargs request =
     (let kw0 = get_generation_kwargs;
          kw1 = set_if_truthy kw0 ''max_new_tokens'' KInt (max_tokens request);
          kw2 = set_if_truthy kw1 ''temperature'' KFloat (temperature request);
          kw3 = set_if_truthy kw2 ''top_p'' KFloat (top_p request)
      in kw3)"

section \<open>vllm\_server.py: chat and chat\_stream\<close>

record CompletionOutput =
  out_text :: string
  token_ids :: "int list"

record RequestOutput =
  finished :: bool
  outputs :: "CompletionOutput list"
  prompt_token_ids :: "int list"

text \<open>What iterating \<open>engine.generate(input_text, sampling_params, request_id)\<close> does: it
  yields request outputs in order and then either ends or raises. The engine is external
  and deterministic: a function of the prompt and the parameters. Its result is \<open>Inl\<close>
  when the library raises before any iteration (in the constructor of \<open>SamplingParams\<close>
  or in \<open>engine.generate\<close> itself).\<close>

datatype engine_run = EngineRun (yielded: "RequestOutput list") (raised: "exn option")

type_synonym engine = "string \<Rightarrow> SamplingParams \<Rightarrow> exn + engine_run"

text \<open>The library's side of a call, split in two. \<open>SamplingParams(...)\<close> is built inside
  the handler's \<open>try\<close>, before \<open>engine.generate\<close>, and its constructor raises
  \<open>ValueError\<close> on arguments it does not accept; only then is the engine proper asked.
  \<open>verify_args\<close> is what the constructor of vllm accepts of the five arguments the handlers
  pass: \<open>max_tokens\<close> at least 1, a non-negative \<open>temperature\<close>, \<open>top_p\<close> in (0, 1] and a
  positive \<open>repetition_penalty\<close>.\<close>

definition verify_args :: "SamplingParams \<Rightarrow> bool" where
  "verify_args p =
     (1 \<le> sp_max_tokens p \<and> 0 \<le> sp_temperature p \<and> 0 < sp_top_p p \<and> sp_top_p p \<le> 1 \<and>
      0 < sp_repetition_penalty p)"

definition vllm_library :: "(SamplingParams \<Rightarrow> bool) \<Rightarrow> engine \<Rightarrow> engine" where
  "vllm_library verify generate prompt params =
     (if verify params then generate prompt params else Inl (LibraryError ''ValueError''))"

definition usage_dict :: "int \<Rightarrow> int \<Rightarrow> (string, int) dict" where
  "usage_dict input_tokens output_tokens =
     (let total_tokens = input_tokens + output_tokens
      in [''prompt_tokens'' \<mapsto> input_tokens,
          ''completion_tokens'' \<mapsto> output_tokens,
          ''total_tokens'' \<mapsto> total_tokens])"

text \<open>The \<open>async for\<close> of \<open>chat\<close> keeps the first finished output. When the run ends or
  raises before one, the handler raises; \<open>outputs[0]\<close> of an empty list raises as well.
  Every exception inside the \<open>try\<close> becomes \<open>HTTPException(500)\<close>.\<close>

definition vllm_chat :: "engine option \<Rightarrow> ChatRequest \<Rightarrow> http_error + ChatResponse" where
  "vllm_chat engine request =
     (case engine of
        None \<Rightarrow> Inl (HTTPException 503)
      | Some generate \<Rightarrow>
          (let input_text = format_chat_messages (messages request)
           in case generate input_text (sampling_params request) of
                Inl e \<Rightarrow> Inl (HTTPException 500)
              | Inr run \<Rightarrow>
                  (case find finished (yielded run) of
                     None \<Rightarrow> Inl (HTTPException 500)
                   | Some final_output \<Rightarrow>
                       (case outputs final_output of
                          [] \<Rightarrow> Inl (HTTPException 500)
                        | out # _ \<Rightarrow>
                            Inr \<lparr> response = out_text out,
                                  usage =
                                    usage_dict (int (length (prompt_token_ids final_output)))
                                      (int (length (token_ids out))),
                                  model = MODEL_NAME \<rparr>))))"

text \<open>The frames of the event stream. A chunk carries \<open>choices[0].delta\<close> (its
  \<open>content\<close>, absent in the final chunk) and \<open>finish_reason\<close>; \<open>Done\<close> is the literal
  \<open>data: [DONE]\<close> frame. Ids and timestamps are left out.\<close>

datatype frame = Chunk (delta_content: "string option") (finish_reason: "string option") | Done

text \<open>\<open>generate_stream\<close>: a frame per unfinished output, two frames at the first finished
  one, then \<open>break\<close>. An exception inside the generator (\<open>outputs[0]\<close> of an empty list)
  ends the stream where it is.\<close>

fun generate_stream :: "RequestOutput list \<Rightarrow> frame list" where
  "generate_stream [] = []"
| "generate_stream (request_output # rest) =
     (if \<not> finished request_output then
        (case outputs request_output of
           [] \<Rightarrow> []
         | out # _ \<Rightarrow> Chunk (Some (out_text out)) None # generate_stream rest)
      else [Chunk None (Some ''stop''), Done])"

definition vllm_chat_stream :: "engine option \<Rightarrow> ChatRequest \<Rightarrow> http_error + frame list" where
  "vllm_chat_stream engine request =
     (case engine of
        None \<Rightarrow> Inl (HTTPException 503)
      | Some generate \<Rightarrow>
          (let input_text = format_chat_messages (messages request)
           in case generate input_text (sampling_params request) of
                Inl e \<Rightarrow> Inl (HTTPException 500)
              | Inr run \<Rightarrow> Inr (generate_stream (yielded run))))"

text \<open>What a consumer reconstructs, in the specification's words: the concatenation of
  the delta texts in emission order, stopping at the sentinel. The client of
  api\_client\_example.py does the same (it prints every non-empty \<open>content\<close>).\<close>

fun stream_text :: "frame list \<Rightarrow> string" where
  "stream_text [] = []"
| "stream_text (Done # _) = []"
| "stream_text (Chunk d _ # rest) = (case d of None \<Rightarrow> [] | Some t \<Rightarrow> t) @ stream_text rest"

section \<open>model\_server.py: chat\<close>

text \<open>The tokenizer and the model are external: \<open>encode\<close> is \<open>tokenizer(input_text)\<close>
  and gives \<open>input_ids\<close>, \<open>decode\<close> is \<open>tokenizer.decode\<close>, the model is
  \<open>model.generate\<close> and gives the row \<open>outputs[0]\<close>. Each may raise.\<close>

record tokenizer =
  encode :: "string \<Rightarrow> exn + int list"
  decode :: "int list \<Rightarrow> exn + string"

type_synonym hf_model = "int list \<Rightarrow> (string, kwarg) dict \<Rightarrow> exn + int list"

definition model_server_chat ::
  "hf_model option \<Rightarrow> tokenizer option \<Rightarrow> ChatRequest \<Rightarrow> http_error + ChatResponse" where
  "model_server_chat model_handle tokenizer_handle request =
     (case (model_handle, tokenizer_handle) of
        (Some generate, Some tok) \<Rightarrow>
          (let input_text = format_chat_messages (messages request)
           in case encode tok input_text of
                Inl e \<Rightarrow> Inl (HTTPException 500)
              | Inr input_ids \<Rightarrow>
                  (case generate input_ids (generation_kwargs request) of
                     Inl e \<Rightarrow> Inl (HTTPException 500)
                   | Inr output_ids \<Rightarrow>
                       (case decode tok (drop (length input_ids) output_ids) of
                          Inl e \<Rightarrow> Inl (HTTPException 500)
                        | Inr response_text \<Rightarrow>
                            (let input_tokens = int (length input_ids);
                                 output_tokens = int (length output_ids) - input_tokens
                             in Inr \<lparr> response = response_text,
                                      usage = usage_dict input_tokens output_tokens,
                                      model = MODEL_NAME \<rparr>))))
      | _ \<Rightarrow> Inl (HTTPException 503))"

section \<open>model\_server.py: get\_system\_info and health\_check\<close>

text \<open>A device as \<open>GPUtil.getGPUs()\<close> reports it.\<close>

record GPU =
  memoryUsed :: rat
  memoryTotal :: rat
  memoryUtil :: rat

text \<open>The values \<open>get_system_info\<close> stores in the \<open>gpu_memory\<close> dict.\<close>

datatype pyval = PyFloat rat | PyStr string | PyDict "(string \<times> pyval) list"

text \<open>The marker text of the \<open>except\<close> branch, as its UTF-8 bytes (it reads
  "cannot get GPU information" in Chinese, around the ASCII letters GPU).\<close>

definition gpu_error_text :: string where
  "gpu_error_text =
     [CHR 0xE6, CHR 0x97, CHR 0xA0, CHR 0xE6, CHR 0xB3, CHR 0x95, CHR 0xE8, CHR 0x8E, CHR 0xB7,
      CHR 0xE5, CHR 0x8F, CHR 0x96, CHR 0x47, CHR 0x50, CHR 0x55, CHR 0xE4, CHR 0xBF, CHR 0xA1,
      CHR 0xE6, CHR 0x81, CHR 0xAF]"

fun str_of_nat :: "nat \<Rightarrow> string" where
  "str_of_nat n =
     (if n < 10 then [char_of (48 + n)]
      else str_of_nat (n div 10) @ [char_of (48 + n mod 10)])"

definition gpu_entry :: "nat \<times> GPU \<Rightarrow> string \<times> pyval" where
  "gpu_entry p =
     (''gpu_'' @ str_of_nat (fst p),
      PyDict [(''used'', PyFloat (memoryUsed (snd p))),
              (''total'', PyFloat (memoryTotal (snd p))),
              (''utilization'', PyFloat (memoryUtil (snd p) * 100))])"

text \<open>\<open>probe\<close> is what the \<open>try\<close> block meets: an exception of the enumeration, or the
  devices. \<open>memory_percent\<close> is \<open>psutil.virtual_memory().percent\<close>, read outside the
  \<open>try\<close> and taken to succeed.\<close>

definition get_system_info :: "exn + GPU list \<Rightarrow> rat \<Rightarrow> (string \<times> pyval) list \<times> rat" where
  "get_system_info probe memory_percent =
     (let gpu_memory =
            (case probe of
               Inl e \<Rightarrow> [(''error'', PyStr gpu_error_text)]
             | Inr gpus \<Rightarrow> map gpu_entry (enumerate 0 gpus));
          system_memory = memory_percent
      in (gpu_memory, system_memory))"

text \<open>\<open>HealthResponse\<close> declares \<open>gpu_memory: Dict[str, float]\<close>. Building a pydantic model
  validates every field against its declared type and raises \<open>ValidationError\<close> when a
  value cannot be read as that type: a float is itself, a dict is never a float, and a
  str is a float only when the library's number parser (the parameter \<open>parse\<close>) reads
  it.\<close>

record HealthResponse =
  status :: string
  model_loaded :: bool
  gpu_memory :: "(string \<times> rat) list"
  system_memory :: rat

fun as_float :: "(string \<Rightarrow> rat option) \<Rightarrow> pyval \<Rightarrow> rat option" where
  "as_float parse (PyFloat x) = Some x"
| "as_float parse (PyStr s) = parse s"
| "as_float parse (PyDict d) = None"

fun validate_float_dict ::
  "(string \<Rightarrow> rat option) \<Rightarrow> (string \<times> pyval) list \<Rightarrow> exn + (string \<times> rat) list" where
  "validate_float_dict parse [] = Inr []"
| "validate_float_dict parse ((k, v) # rest) =
     (case as_float parse v of
        None \<Rightarrow> Inl ValidationError
      | Some x \<Rightarrow>
          (case validate_float_dict parse rest of
             Inl e \<Rightarrow> Inl e
           | Inr checked \<Rightarrow> Inr ((k, x) # checked)))"

definition health_check ::
  "(string \<Rightarrow> rat option) \<Rightarrow> hf_model option \<Rightarrow> exn + GPU list \<Rightarrow> rat \<Rightarrow> exn + HealthResponse" where
  "health_check parse model_handle probe memory_percent =
     (case get_system_info probe memory_percent of
        (gpu_mem, system_mem) \<Rightarrow>
          (case validate_float_dict parse gpu_mem of
             Inl e \<Rightarrow> Inl e
           | Inr checked \<Rightarrow>
               Inr \<lparr> status = (if model_handle \<noteq> None then ''healthy'' else ''unhealthy''),
                     model_loaded = (model_handle \<noteq> None),
                     gpu_memory = checked,
                     system_memory = system_mem \<rparr>))"

section \<open>monitor.py: the metrics record\<close>

text \<open>A metrics record as \<open>generate_report\<close> builds it and \<open>json.load\<close> reads it back.
  A key that may be absent is an option; a sub-dict of numbers is a map. Entries the
  functions below never read (names, the probe's \<open>status\<close> text) are left out. A value of
  the \<open>gpu\<close> dict is a dict of numbers or something else (the error text).\<close>

type_synonym numdict = "(string, rat) dict"

datatype gpu_info = GpuInfo numdict | GpuNotDict

record SystemMetrics =
  cpu_percent :: "rat option"
  memory :: "numdict option"
  disk :: "numdict option"
  gpu :: "(string \<times> gpu_info) list option"

record Metrics =
  timestamp :: "string option"
  system :: "SystemMetrics option"
  api_health :: "(string, string) dict option"
  performance :: "numdict option"

definition sub_dict :: "('k, 'v) dict option \<Rightarrow> ('k, 'v) dict" where
  "sub_dict d = (case d of None \<Rightarrow> Map.empty | Some m \<Rightarrow> m)"

section \<open>monitor.py: check\_alerts\<close>

text \<open>An alert is a formatted text in the source; here it is the condition that fired
  with the value the text shows.\<close>

datatype alert =
    CpuHigh rat
  | MemoryHigh rat
  | DiskHigh rat
  | GpuMemoryHigh string rat
  | ApiStatusAbnormal string
  | ResponseSlow rat

fun gpu_alerts :: "(string \<times> gpu_info) list \<Rightarrow> alert list" where
  "gpu_alerts [] = []"
| "gpu_alerts ((gpu_id, info) # rest) =
     (case info of
        GpuInfo d \<Rightarrow>
          (case d ''memory_percent'' of
             Some p \<Rightarrow> if p > 95 then [GpuMemoryHigh gpu_id p] else []
           | None \<Rightarrow> [])
      | GpuNotDict \<Rightarrow> [])
     @ gpu_alerts rest"

definition system_alerts :: "SystemMetrics \<Rightarrow> alert list" where
  "system_alerts sys =
     (let cpu = (case cpu_percent sys of None \<Rightarrow> 0 | Some v \<Rightarrow> v);
          mem = dict_get (sub_dict (memory sys)) ''percent'' 0;
          dsk = dict_get (sub_dict (disk sys)) ''percent'' 0
      in (if cpu > 90 then [CpuHigh cpu] else [])
         @ (if mem > 90 then [MemoryHigh mem] else [])
         @ (if dsk > 90 then [DiskHigh dsk] else [])
         @ gpu_alerts (case gpu sys of None \<Rightarrow> [] | Some g \<Rightarrow> g))"

definition api_alerts :: "(string, string) dict \<Rightarrow> alert list" where
  "api_alerts api =
     (if api ''status'' \<noteq> Some ''healthy''
      then [ApiStatusAbnormal (dict_get api ''status'' ''unknown'')] else [])"

definition performance_alerts :: "numdict \<Rightarrow> alert list" where
  "performance_alerts perf =
     (let t = dict_get perf ''response_time'' 0
      in if t > 30 then [ResponseSlow t] else [])"

definition check_alerts :: "Metrics \<Rightarrow> alert list" where
  "check_alerts metrics =
     (case system metrics of None \<Rightarrow> [] | Some sys \<Rightarrow> system_alerts sys)
     @ (case api_health metrics of None \<Rightarrow> [] | Some api \<Rightarrow> api_alerts api)
     @ (case performance metrics of None \<Rightarrow> [] | Some perf \<Rightarrow> performance_alerts perf)"

definition is_api_alert :: "alert \<Rightarrow> bool" where
  "is_api_alert a = (case a of ApiStatusAbnormal s \<Rightarrow> True | _ \<Rightarrow> False)"

section \<open>monitor.py: save\_metrics\_to\_file\<close>

text \<open>The state of metrics.json. What \<open>json.load\<close> returns is an object or not; the value
  under a key is a list, or a non-list that Python takes for false (null, false, 0, an
  empty string or object) or for true.\<close>

datatype 'r jvalue = JList "'r list" | JFalsy | JTruthy

datatype 'r json_data = JObject "(string, 'r jvalue) dict" | JNotObject

text \<open>\<open>FileMissing\<close>: \<open>open\<close> raises \<open>FileNotFoundError\<close>. \<open>FileNotJson\<close>: \<open>json.load\<close>
  raises \<open>JSONDecodeError\<close>. \<open>FileJson\<close>: the load returns a value. \<open>FileLoadFails\<close>:
  \<open>open\<close> or \<open>json.load\<close> raises anything else (\<open>PermissionError\<close>, \<open>UnicodeDecodeError\<close>
  on bytes that are not UTF-8, \<open>RecursionError\<close> on a document nested too deeply); its
  argument is the list under \<open>records\<close> of the document on disk when that is a JSON
  document, and empty otherwise.\<close>

datatype 'r file_state =
  FileMissing | FileNotJson | FileJson "'r json_data" | FileLoadFails "'r list"






section \<open>monitor.py: generate\_summary\_report\<close>

record stats =
  average :: rat
  maximum :: rat
  minimum :: rat

text \<open>The three printed figures of a non-empty list; nothing is printed for an empty one.\<close>

definition aggregate :: "rat list \<Rightarrow> stats option" where
  "aggregate vs =
     (case vs of
        [] \<Rightarrow> None
      | v # rest \<Rightarrow>
          Some \<lparr> average = sum_list vs / of_nat (length vs),
                 maximum = fold max rest v,
                 minimum = fold min rest v \<rparr>)"

definition cpu_value :: "Metrics \<Rightarrow> rat" where
  "cpu_value r =
     (case system r of None \<Rightarrow> 0
      | Some sys \<Rightarrow> (case cpu_percent sys of None \<Rightarrow> 0 | Some v \<Rightarrow> v))"

definition memory_value :: "Metrics \<Rightarrow> rat" where
  "memory_value r =
     (case system r of None \<Rightarrow> 0
      | Some sys \<Rightarrow> dict_get (sub_dict (memory sys)) ''percent'' 0)"

definition response_value :: "Metrics \<Rightarrow> rat" where
  "response_value r = dict_get (sub_dict (performance r)) ''response_time'' 0"

definition status_value :: "Metrics \<Rightarrow> string" where
  "status_value r = dict_get (sub_dict (api_health r)) ''status'' ''unknown''"

definition shown_timestamp :: "Metrics \<Rightarrow> string" where
  "shown_timestamp r = (case timestamp r of None \<Rightarrow> ''unknown'' | Some t \<Rightarrow> t)"

text \<open>\<open>status_counts\<close> is a dict filled in a loop; an association list keeps its
  insertion order.\<close>

fun count_statuses :: "string list \<Rightarrow> (string \<times> nat) list \<Rightarrow> (string \<times> nat) list" where
  "count_statuses [] status_counts = status_counts"
| "count_statuses (s # rest) status_counts =
     count_statuses rest
       (AList.update s (dict_get (map_of status_counts) s 0 + 1) status_counts)"

record Summary =
  total_records :: nat
  time_range :: "string \<times> string"
  cpu_stats :: "stats option"
  memory_stats :: "stats option"
  response_stats :: "stats option"
  status_lines :: "(string \<times> nat \<times> rat) list"

datatype summary_result = ReportFailed | NoData | Report Summary

definition summarize :: "Metrics list \<Rightarrow> summary_result" where
  "summarize records =
     (case records of
        [] \<Rightarrow> NoData
      | first # _ \<Rightarrow>
          (let n_total = length records;
               cpu_values = filter (\<lambda>v. v > 0) (map cpu_value records);
               memory_values = filter (\<lambda>v. v > 0) (map memory_value records);
               response_times = filter (\<lambda>v. v > 0) (map response_value records);
               api_statuses = map status_value records;
               status_counts = count_statuses api_statuses []
           in Report
                \<lparr> total_records = n_total,
                  time_range = (shown_timestamp first, shown_timestamp (last records)),
                  cpu_stats = aggregate cpu_values,
                  memory_stats = aggregate memory_values,
                  response_stats = aggregate response_times,
                  status_lines =
                    map (\<lambda>(s, n). (s, n, of_nat n / of_nat n_total * 100)) status_counts \<rparr>))"

definition generate_summary_report :: "Metrics file_state \<Rightarrow> summary_result" where
  "generate_summary_report file =
     (case file of
        FileJson (JObject d) \<Rightarrow>
          (case d ''records'' of
             None \<Rightarrow> NoData
           | Some (JList rs) \<Rightarrow> summarize rs
           | Some JFalsy \<Rightarrow> NoData
           | Some JTruthy \<Rightarrow> ReportFailed)
      | _ \<Rightarrow> ReportFailed)"

section \<open>Predicates of the claims, stub backends and sample inputs\<close>

text \<open>The text of the first completion of a request output, empty when it has none.\<close>

definition first_text :: "RequestOutput \<Rightarrow> string" where
  "first_text r = (case outputs r of [] \<Rightarrow> [] | out # _ \<Rightarrow> out_text out)"

text \<open>The usage invariant of a chat response, in two parts.\<close>

definition usage_total_is_sum :: "ChatResponse \<Rightarrow> bool" where
  "usage_total_is_sum resp =
     (case (usage resp ''prompt_tokens'', usage resp ''completion_tokens'',
            usage resp ''total_tokens'') of
        (Some p, Some c, Some t) \<Rightarrow> t = p + c
      | _ \<Rightarrow> False)"

definition usage_nonnegative :: "ChatResponse \<Rightarrow> bool" where
  "usage_nonnegative resp =
     (case (usage resp ''prompt_tokens'', usage resp ''completion_tokens'') of
        (Some p, Some c) \<Rightarrow> 0 \<le> p \<and> 0 \<le> c
      | _ \<Rightarrow> False)"

text \<open>metrics.json holding exactly the given records.\<close>

definition log_file :: "'r list \<Rightarrow> 'r file_state" where
  "log_file rs = FileJson (JObject [''records'' \<mapsto> JList rs])"

text \<open>The request of the specification's end-to-end scenario.\<close>

definition hi_request :: ChatRequest where
  "hi_request =
     \<lparr> messages = [[''role'' \<mapsto> ''user'', ''content'' \<mapsto> ''hi'']],
       max_tokens = Some 10, temperature = None, top_p = None, stream = False \<rparr>"

text \<open>A deterministic engine that yields one unfinished output and then the finished
  one, with the text generated so far in each.\<close>

definition two_step_engine :: engine where
  "two_step_engine prompt params =
     Inr (EngineRun
       [\<lparr> finished = False, outputs = [\<lparr> out_text = ''Hel'', token_ids = [1] \<rparr>],
           prompt_token_ids = [7, 8] \<rparr>,
        \<lparr> finished = True, outputs = [\<lparr> out_text = ''Hello'', token_ids = [1, 2] \<rparr>],
           prompt_token_ids = [7, 8] \<rparr>]
       None)"

text \<open>Stub backends that answer \<open>hello\<close> to any prompt.\<close>

definition hello_engine :: engine where
  "hello_engine prompt params =
     Inr (EngineRun
       [\<lparr> finished = True, outputs = [\<lparr> out_text = ''hello'', token_ids = [31373] \<rparr>],
           prompt_token_ids = map of_char prompt \<rparr>]
       None)"

definition echo_tokenizer :: tokenizer where
  "echo_tokenizer =
     \<lparr> encode = (\<lambda>s. Inr (map of_char s)), decode = (\<lambda>ids. Inr ''hello'') \<rparr>"

definition hello_model :: hf_model where
  "hello_model ids kw = Inr (ids @ [31373])"

text \<open>A model that returns a single token whatever its input, and one that rejects every
  call.\<close>

definition short_row_model :: hf_model where
  "short_row_model ids kw = Inr [31373]"

definition failing_model :: hf_model where
  "failing_model ids kw = Inl (LibraryError ''ValueError'')"

text \<open>A request with every override out of its domain.\<close>

definition wild_request :: ChatRequest where
  "wild_request = hi_request\<lparr>max_tokens := Some (- 5), temperature := Some (- 1),
                              top_p := Some (3 / 2)\<rparr>"


text \<open>A stub model that answers only when it is called with \<open>top_p = 1.5\<close>.\<close>

definition wide_top_p_model :: hf_model where
  "wide_top_p_model ids kw =
     (if kw ''top_p'' = Some (KFloat (3 / 2)) then hello_model ids kw
      else Inl (LibraryError ''not called with top_p = 1.5''))"

text \<open>A device, a full rolling log, and two metrics records: one of a healthy tick, one
  of a tick whose probes failed.\<close>

definition sample_gpu :: GPU where
  "sample_gpu = \<lparr> memoryUsed = 1024, memoryTotal = 24576, memoryUtil = 1 / 24 \<rparr>"


definition busy_record :: Metrics where
  "busy_record =
     \<lparr> timestamp = Some ''2024-01-01T00:00:00'',
       system = Some \<lparr> cpu_percent = Some 40, memory = Some [''percent'' \<mapsto> 60],
                       disk = None, gpu = None \<rparr>,
       api_health = Some [''status'' \<mapsto> ''healthy''],
       performance = Some [''response_time'' \<mapsto> 2] \<rparr>"

definition failed_record :: Metrics where
  "failed_record =
     \<lparr> timestamp = Some ''2024-01-01T00:01:00'',
       system = Some \<lparr> cpu_percent = Some 0, memory = None, disk = None, gpu = None \<rparr>,
       api_health = Some [''error'' \<mapsto> ''HTTP 500''],
       performance = Some Map.empty \<rparr>"

section \<open>The prompt formatter\<close>

lemma format_loop_acc:
  "format_loop msgs acc =
     acc @ concat (map (\<lambda>m. role_block (turn_role m) (turn_content m)) (filter kept_turn msgs))"
  by (induction msgs arbitrary: acc)
     (simp_all add: Let_def kept_turn_def turn_role_def turn_content_def role_block_def)

text \<open>
  C5. For every conversation, the formatter's output is exactly one block
  \<open><|im_start|>ROLE\nCONTENT<|im_end|>\n\<close> for each turn whose role is user or assistant,
  in input order (turns with any other role are dropped, a missing content is the empty
  string), followed by exactly one open assistant marker \<open><|im_start|>assistant\n\<close>.
\<close>

theorem format_chat_messages_blocks: "format_chat_messages msgs = format_spec msgs"
  by (simp add: format_chat_messages_def format_spec_def format_loop_acc)

theorem format_chat_messages_blocks_witness:
  "format_chat_messages
     [[''role'' \<mapsto> ''system'', ''content'' \<mapsto> ''be brief''],
      [''role'' \<mapsto> ''user'', ''content'' \<mapsto> ''hi''],
      [''role'' \<mapsto> ''assistant'']]
   = ''<|im_start|>user\<newline>hi<|im_end|>\<newline><|im_start|>assistant\<newline><|im_end|>\<newline><|im_start|>assistant\<newline>''"
  unfolding format_chat_messages_blocks
  by (simp add: format_spec_def kept_turn_def turn_role_def turn_content_def role_block_def
      dict_get_def)

section \<open>Streaming against the non-streaming reply\<close>

text \<open>The stream carries the texts of the unfinished outputs only: the text of the
  finished output, which is the non-streaming reply, is never sent.\<close>

lemma stream_text_generate_stream:
  "stream_text (generate_stream ys) =
     concat (map first_text (takeWhile (\<lambda>r. \<not> finished r \<and> outputs r \<noteq> []) ys))"
  by (induction ys) (auto simp: first_text_def split: list.splits)

lemma vllm_chat_response:
  "generate (format_chat_messages (messages r)) (sampling_params r) = Inr run \<Longrightarrow>
   find finished (yielded run) = Some final \<Longrightarrow> outputs final \<noteq> [] \<Longrightarrow>
   map_sum status_code response (vllm_chat (Some generate) r) = Inr (first_text final)"
  by (auto simp: vllm_chat_def first_text_def split: list.splits)

text \<open>
  C1. The claim: for a deterministic backend, the concatenation of the delta texts of
  the streaming endpoint up to the sentinel equals the reply of the non-streaming endpoint.
  On an engine that yields \<open>Hel\<close> unfinished and then \<open>Hello\<close> finished, the non-streaming
  endpoint replies \<open>Hello\<close> while the deltas of the stream concatenate to \<open>Hel\<close>.
\<close>

theorem stream_drops_final_text:
  "map_sum status_code response (vllm_chat (Some two_step_engine) hi_request) = Inr ''Hello'' \<and>
   map_sum status_code stream_text (vllm_chat_stream (Some two_step_engine) hi_request)
     = Inr ''Hel'' \<and>
   map_sum status_code id (vllm_chat_stream (Some two_step_engine) hi_request)
     = Inr [Chunk (Some ''Hel'') None, Chunk None (Some ''stop''), Done]"
  by (simp add: vllm_chat_def vllm_chat_stream_def two_step_engine_def)

section \<open>Resolved generation parameters\<close>

lemma set_if_truthy_other: "k \<noteq> key \<Longrightarrow> set_if_truthy kw key wrap x k = kw k"
  by (simp add: set_if_truthy_def split: option.splits)

lemma generation_kwargs_top_p:
  "top_p r = Some v \<Longrightarrow> v \<noteq> 0 \<Longrightarrow> generation_kwargs r ''top_p'' = Some (KFloat v)"
  by (simp add: generation_kwargs_def Let_def set_if_truthy_def)

lemma generation_kwargs_temperature:
  "temperature r = Some v \<Longrightarrow> v \<noteq> 0 \<Longrightarrow>
     generation_kwargs r ''temperature'' = Some (KFloat v)"
  by (simp add: generation_kwargs_def Let_def set_if_truthy_def split: option.splits)

lemma generation_kwargs_max_tokens:
  "max_tokens r = Some n \<Longrightarrow> n \<noteq> 0 \<Longrightarrow>
     generation_kwargs r ''max_new_tokens'' = Some (KInt n)"
  by (simp add: generation_kwargs_def Let_def set_if_truthy_def split: option.splits)

lemma absent_override_gives_default:
  "temperature r = None \<Longrightarrow>
     sp_temperature (sampling_params r) = TEMPERATURE \<and>
     generation_kwargs r ''temperature'' = Some (KFloat TEMPERATURE)"
  by (simp add: sampling_params_def py_or_def generation_kwargs_def Let_def set_if_truthy_def
      get_generation_kwargs_def split: option.splits)

text \<open>
  C2. The claim: a present, non-null override is used even when it is zero. Both servers
  test the override for truth, so \<open>temperature = 0.0\<close> and \<open>max_tokens = 0\<close> are replaced
  by the defaults 0.7 and 2048.
\<close>

theorem zero_override_replaced_by_default:
  "sp_temperature (sampling_params (hi_request\<lparr>temperature := Some 0\<rparr>)) = 7 / 10 \<and>
   generation_kwargs (hi_request\<lparr>temperature := Some 0\<rparr>) ''temperature''
     = Some (KFloat (7 / 10)) \<and>
   sp_max_tokens (sampling_params (hi_request\<lparr>max_tokens := Some 0\<rparr>)) = 2048 \<and>
   generation_kwargs (hi_request\<lparr>max_tokens := Some 0\<rparr>) ''max_new_tokens''
     = Some (KInt 2048)"
  by (simp add: sampling_params_def generation_kwargs_def py_or_def set_if_truthy_def
      get_generation_kwargs_def hi_request_def TEMPERATURE_def MAX_TOKENS_def)

lemma vllm_chat_status:
  "vllm_chat engine r = Inl e \<Longrightarrow>
     (engine = None \<and> status_code e = 503) \<or> (engine \<noteq> None \<and> status_code e = 500)"
  by (auto simp: vllm_chat_def Let_def split: option.splits sum.splits list.splits)

lemma model_server_chat_status:
  "model_server_chat mh th r = Inl e \<Longrightarrow>
     ((mh = None \<or> th = None) \<and> status_code e = 503) \<or>
     (mh \<noteq> None \<and> th \<noteq> None \<and> status_code e = 500)"
  by (auto simp: model_server_chat_def Let_def split: option.splits sum.splits)

text \<open>An override that is present, not zero and outside its domain makes the resolved
  parameters unacceptable to the constructor.\<close>

lemma out_of_domain_not_verified:
  "(top_p r = Some v \<and> (v < 0 \<or> 1 < v)) \<or> (temperature r = Some u \<and> u < 0) \<or>
   (max_tokens r = Some n \<and> n < 0) \<Longrightarrow> \<not> verify_args (sampling_params r)"
  by (auto simp: verify_args_def sampling_params_def py_or_def)

lemma vllm_rejected_before_engine:
  "\<not> verify (sampling_params r) \<Longrightarrow>
     vllm_chat (Some (vllm_library verify generate)) r = Inl (HTTPException 500) \<and>
     vllm_chat_stream (Some (vllm_library verify generate)) r = Inl (HTTPException 500)"
  by (simp add: vllm_chat_def vllm_chat_stream_def vllm_library_def)

lemma vllm_accepted_reaches_engine:
  "verify (sampling_params r) \<Longrightarrow>
     vllm_chat (Some (vllm_library verify generate)) r = vllm_chat (Some generate) r \<and>
     vllm_chat_stream (Some (vllm_library verify generate)) r
       = vllm_chat_stream (Some generate) r"
  by (simp add: vllm_chat_def vllm_chat_stream_def vllm_library_def)

lemma model_server_chat_reply:
  "encode tok (format_chat_messages (messages r)) = Inr ids \<Longrightarrow>
   generate ids (generation_kwargs r) = Inr out \<Longrightarrow>
   decode tok (drop (length ids) out) = Inr reply \<Longrightarrow>
   map_sum status_code response (model_server_chat (Some generate) (Some tok) r) = Inr reply"
  by (simp add: model_server_chat_def Let_def)

lemma model_server_chat_backend_error:
  "encode tok (format_chat_messages (messages r)) = Inr ids \<Longrightarrow>
   generate ids (generation_kwargs r) = Inl x \<Longrightarrow>
   model_server_chat (Some generate) (Some tok) r = Inl (HTTPException 500)"
  by (simp add: model_server_chat_def)

text \<open>
  C3, as claimed: an out-of-domain override fails with a client error before the backend
  is called. With \<open>top_p = 1.5\<close>, model\_server.py calls the model with 1.5 (the stub
  answers to nothing else) and returns its reply; vllm\_server.py fails, whatever the engine,
  with status 500: a server error.
\<close>

theorem out_of_domain_top_p_not_client_error:
  "map_sum status_code response
     (model_server_chat (Some wide_top_p_model) (Some echo_tokenizer)
        (hi_request\<lparr>top_p := Some (3 / 2)\<rparr>))
     = Inr ''hello'' \<and>
   vllm_chat (Some (vllm_library verify_args hello_engine)) (hi_request\<lparr>top_p := Some (3 / 2)\<rparr>)
     = Inl (HTTPException 500) \<and>
   vllm_chat_stream (Some (vllm_library verify_args hello_engine))
       (hi_request\<lparr>top_p := Some (3 / 2)\<rparr>)
     = Inl (HTTPException 500)"
  by (simp add: vllm_chat_def vllm_chat_stream_def vllm_library_def verify_args_def
      model_server_chat_def wide_top_p_model_def hello_model_def echo_tokenizer_def
      hi_request_def sampling_params_def generation_kwargs_def py_or_def set_if_truthy_def
      get_generation_kwargs_def)

text \<open>
  C3, amended. For every chat request carrying an override that is present, not zero and
  out of its domain (\<open>top_p\<close> negative or above 1, a negative \<open>temperature\<close>, a negative
  \<open>max_tokens\<close>):
  \<^item> in vllm\_server.py the resolved parameters carry the value unchanged, the constructor
    of \<open>SamplingParams\<close> rejects them, and both handlers fail with status 500 whatever the
    engine is: before any generation call, but as a server error;
  \<^item> in model\_server.py nothing checks the value: the resolved kwargs carry it unchanged,
    the model is called with exactly these kwargs, and the handler returns the decoded
    reply when the model answers and status 500 when it raises.
  Neither chat handler has a client-error path: a failure has status 503 or 500.
\<close>

theorem out_of_domain_override_handling:
  "((top_p r = Some v \<and> (v < 0 \<or> 1 < v) \<longrightarrow>
       sp_top_p (sampling_params r) = v \<and> generation_kwargs r ''top_p'' = Some (KFloat v)) \<and>
    (temperature r = Some u \<and> u < 0 \<longrightarrow>
       sp_temperature (sampling_params r) = u \<and>
       generation_kwargs r ''temperature'' = Some (KFloat u)) \<and>
    (max_tokens r = Some n \<and> n < 0 \<longrightarrow>
       sp_max_tokens (sampling_params r) = n \<and>
       generation_kwargs r ''max_new_tokens'' = Some (KInt n))) \<and>
   ((top_p r = Some v \<and> (v < 0 \<or> 1 < v)) \<or> (temperature r = Some u \<and> u < 0) \<or>
    (max_tokens r = Some n \<and> n < 0) \<longrightarrow>
      vllm_chat (Some (vllm_library verify_args engine)) r = Inl (HTTPException 500) \<and>
      vllm_chat_stream (Some (vllm_library verify_args engine)) r = Inl (HTTPException 500)) \<and>
   (encode tok (format_chat_messages (messages r)) = Inr ids \<and>
    answering ids (generation_kwargs r) = Inr out \<and>
    decode tok (drop (length ids) out) = Inr reply \<longrightarrow>
      map_sum status_code response (model_server_chat (Some answering) (Some tok) r)
        = Inr reply) \<and>
   (encode tok (format_chat_messages (messages r)) = Inr ids \<and>
    raising ids (generation_kwargs r) = Inl x \<longrightarrow>
      model_server_chat (Some raising) (Some tok) r = Inl (HTTPException 500)) \<and>
   (vllm_chat handle r = Inl e \<longrightarrow> status_code e = 503 \<or> status_code e = 500) \<and>
   (model_server_chat mh th r = Inl e' \<longrightarrow> status_code e' = 503 \<or> status_code e' = 500)"
proof -
  have resolved:
    "(top_p r = Some v \<and> (v < 0 \<or> 1 < v) \<longrightarrow>
       sp_top_p (sampling_params r) = v \<and> generation_kwargs r ''top_p'' = Some (KFloat v)) \<and>
    (temperature r = Some u \<and> u < 0 \<longrightarrow>
       sp_temperature (sampling_params r) = u \<and>
       generation_kwargs r ''temperature'' = Some (KFloat u)) \<and>
    (max_tokens r = Some n \<and> n < 0 \<longrightarrow>
       sp_max_tokens (sampling_params r) = n \<and>
       generation_kwargs r ''max_new_tokens'' = Some (KInt n))"
    by (auto simp: sampling_params_def py_or_def generation_kwargs_top_p
        generation_kwargs_temperature generation_kwargs_max_tokens)
  have rejected:
    "(top_p r = Some v \<and> (v < 0 \<or> 1 < v)) \<or> (temperature r = Some u \<and> u < 0) \<or>
     (max_tokens r = Some n \<and> n < 0) \<longrightarrow>
      vllm_chat (Some (vllm_library verify_args engine)) r = Inl (HTTPException 500) \<and>
      vllm_chat_stream (Some (vllm_library verify_args engine)) r = Inl (HTTPException 500)"
    using out_of_domain_not_verified[of r v u n] vllm_rejected_before_engine[of verify_args r engine]
    by blast
  have answered:
    "encode tok (format_chat_messages (messages r)) = Inr ids \<and>
     answering ids (generation_kwargs r) = Inr out \<and>
     decode tok (drop (length ids) out) = Inr reply \<longrightarrow>
      map_sum status_code response (model_server_chat (Some answering) (Some tok) r)
        = Inr reply"
    using model_server_chat_reply[of tok r ids answering out reply] by blast
  have raised:
    "encode tok (format_chat_messages (messages r)) = Inr ids \<and>
     raising ids (generation_kwargs r) = Inl x \<longrightarrow>
      model_server_chat (Some raising) (Some tok) r = Inl (HTTPException 500)"
    using model_server_chat_backend_error[of tok r ids raising x] by blast
  have statuses:
    "(vllm_chat handle r = Inl e \<longrightarrow> status_code e = 503 \<or> status_code e = 500) \<and>
     (model_server_chat mh th r = Inl e' \<longrightarrow> status_code e' = 503 \<or> status_code e' = 500)"
    using vllm_chat_status[of handle r e] model_server_chat_status[of mh th r e'] by blast
  from resolved rejected answered raised statuses show ?thesis by blast
qed

theorem out_of_domain_override_handling_witness:
  "top_p wild_request = Some (3 / 2) \<and> temperature wild_request = Some (- 1) \<and>
   max_tokens wild_request = Some (- 5) \<and>
   sp_top_p (sampling_params wild_request) = 3 / 2 \<and>
   sp_temperature (sampling_params wild_request) = - 1 \<and>
   sp_max_tokens (sampling_params wild_request) = - 5 \<and>
   generation_kwargs wild_request ''top_p'' = Some (KFloat (3 / 2)) \<and>
   vllm_chat (Some (vllm_library verify_args hello_engine)) wild_request
     = Inl (HTTPException 500) \<and>
   vllm_chat_stream (Some (vllm_library verify_args hello_engine)) wild_request
     = Inl (HTTPException 500) \<and>
   map_sum status_code response
     (model_server_chat (Some wide_top_p_model) (Some echo_tokenizer) wild_request)
     = Inr ''hello'' \<and>
   model_server_chat (Some failing_model) (Some echo_tokenizer) wild_request
     = Inl (HTTPException 500)"
proof -
  let ?ids = "map of_char (format_chat_messages (messages wild_request)) :: int list"
  have tp: "top_p wild_request = Some (3 / 2) \<and> ((3 / 2 :: rat) < 0 \<or> 1 < (3 / 2 :: rat))"
    by (simp add: wild_request_def)
  have te: "temperature wild_request = Some (- 1) \<and> (- 1 :: rat) < 0"
    by (simp add: wild_request_def)
  have mt: "max_tokens wild_request = Some (- 5) \<and> (- 5 :: int) < 0"
    by (simp add: wild_request_def)
  have enc: "encode echo_tokenizer (format_chat_messages (messages wild_request)) = Inr ?ids"
    by (simp add: echo_tokenizer_def)
  have dec: "decode echo_tokenizer (drop (length ?ids) (?ids @ [31373])) = Inr ''hello''"
    by (simp add: echo_tokenizer_def)
  have bad: "failing_model ?ids (generation_kwargs wild_request)
               = Inl (LibraryError ''ValueError'')"
    by (simp add: failing_model_def)
  have v: "vllm_chat (Some (vllm_library verify_args hello_engine)) wild_request
             = Inl (HTTPException 500)"
    and m: "model_server_chat (Some failing_model) (Some echo_tokenizer) wild_request
             = Inl (HTTPException 500)"
    and res: "sp_top_p (sampling_params wild_request) = 3 / 2"
       "sp_temperature (sampling_params wild_request) = - 1"
       "sp_max_tokens (sampling_params wild_request) = - 5"
       "generation_kwargs wild_request ''top_p'' = Some (KFloat (3 / 2))"
    and vs: "vllm_chat_stream (Some (vllm_library verify_args hello_engine)) wild_request
             = Inl (HTTPException 500)"
    using out_of_domain_override_handling[of wild_request "3 / 2" "- 1" "- 5" hello_engine
        echo_tokenizer ?ids wide_top_p_model "?ids @ [31373]" "''hello''" failing_model
        "LibraryError ''ValueError''" "Some (vllm_library verify_args hello_engine)"
        "HTTPException 500" "Some failing_model" "Some echo_tokenizer" "HTTPException 500"]
      tp te mt enc bad
    by simp_all
  have ans: "wide_top_p_model ?ids (generation_kwargs wild_request) = Inr (?ids @ [31373])"
    using res(4) by (simp add: wide_top_p_model_def hello_model_def)
  have reply: "map_sum status_code response
     (model_server_chat (Some wide_top_p_model) (Some echo_tokenizer) wild_request)
     = Inr ''hello''"
    using out_of_domain_override_handling[of wild_request "3 / 2" "- 1" "- 5" hello_engine
        echo_tokenizer ?ids wide_top_p_model "?ids @ [31373]" "''hello''" failing_model
        "LibraryError ''ValueError''" "Some (vllm_library verify_args hello_engine)"
        "HTTPException 500" "Some failing_model" "Some echo_tokenizer" "HTTPException 500"]
      enc ans dec
    by blast
  from tp te mt v vs m res reply show ?thesis by simp
qed

text \<open>
  C8. For every two requests the resolved configurations agree on the repetition penalty
  and on the stop sequences: vllm\_server.py takes the penalty from \<open>ModelConfig\<close> and a
  fixed stop list, and model\_server.py leaves every entry of the default kwargs other than
  \<open>max_new_tokens\<close>, \<open>temperature\<close> and \<open>top_p\<close> (the penalty and the end-of-sequence id among
  them) as \<open>get_generation_kwargs\<close> gives it.
\<close>

theorem fixed_sampling_fields:
  "sp_repetition_penalty (sampling_params r1) = sp_repetition_penalty (sampling_params r2) \<and>
   sp_stop (sampling_params r1) = sp_stop (sampling_params r2) \<and>
   sp_repetition_penalty (sampling_params r1) = REPETITION_PENALTY \<and>
   generation_kwargs r1 ''repetition_penalty'' = Some (KFloat REPETITION_PENALTY) \<and>
   (k \<noteq> ''max_new_tokens'' \<and> k \<noteq> ''temperature'' \<and> k \<noteq> ''top_p'' \<longrightarrow>
      generation_kwargs r1 k = generation_kwargs r2 k \<and>
      generation_kwargs r1 k = get_generation_kwargs k)"
proof -
  have other: "generation_kwargs r k' = get_generation_kwargs k'"
    if "k' \<noteq> ''max_new_tokens''" "k' \<noteq> ''temperature''" "k' \<noteq> ''top_p''" for r k'
    using that by (simp add: generation_kwargs_def Let_def set_if_truthy_other)
  have "generation_kwargs r1 ''repetition_penalty'' = get_generation_kwargs ''repetition_penalty''"
    by (rule other) simp_all
  then have rp: "generation_kwargs r1 ''repetition_penalty'' = Some (KFloat REPETITION_PENALTY)"
    by (simp add: get_generation_kwargs_def)
  show ?thesis using rp other[of k r1] other[of k r2]
    by (simp add: sampling_params_def)
qed

theorem fixed_sampling_fields_witness:
  "sp_stop (sampling_params (hi_request\<lparr>top_p := Some (3 / 2), max_tokens := Some 1\<rparr>))
     = sp_stop (sampling_params hi_request) \<and>
   generation_kwargs (hi_request\<lparr>top_p := Some (3 / 2), max_tokens := Some 1\<rparr>) ''eos_token_id''
     = generation_kwargs hi_request ''eos_token_id'' \<and>
   generation_kwargs (hi_request\<lparr>top_p := Some (3 / 2), max_tokens := Some 1\<rparr>) ''eos_token_id''
     = Some (KInt 151643)"
  using fixed_sampling_fields[of "hi_request\<lparr>top_p := Some (3 / 2), max_tokens := Some 1\<rparr>"
      hi_request "''eos_token_id''"]
  by (auto simp: get_generation_kwargs_def)

section \<open>Token usage of a chat response\<close>

lemma usage_dict_total:
  "usage_total_is_sum \<lparr> response = t, usage = usage_dict p c, model = n \<rparr>"
  by (simp add: usage_total_is_sum_def usage_dict_def)

lemma usage_dict_nonnegative:
  "0 \<le> p \<Longrightarrow> 0 \<le> c \<Longrightarrow>
     usage_nonnegative \<lparr> response = t, usage = usage_dict p c, model = n \<rparr>"
  by (simp add: usage_nonnegative_def usage_dict_def)

text \<open>
  C7, as claimed: both addends of every successful call are non-negative. In
  model\_server.py the completion count is a difference; on a model that returns a row of
  one token for a prompt of 52 the call succeeds with \<open>completion_tokens = -51\<close>.
\<close>

theorem short_row_negative_completion:
  "map_sum status_code
     (\<lambda>resp. (usage resp ''prompt_tokens'', usage resp ''completion_tokens'',
              usage resp ''total_tokens''))
     (model_server_chat (Some short_row_model) (Some echo_tokenizer) hi_request)
   = Inr (Some 52, Some (- 51), Some 1)"
  by (simp add: model_server_chat_def short_row_model_def echo_tokenizer_def hi_request_def
      format_chat_messages_def dict_get_def usage_dict_def)

text \<open>
  C7, amended. Every successful non-streaming chat call returns a usage whose total is the
  sum of the prompt and completion counts. In vllm\_server.py both counts are lengths, hence
  non-negative. In model\_server.py the prompt count is the length of the input and the
  completion count is the length of the row the model returned minus the length of the
  input: the counts are non-negative exactly when that row is at least as long as the
  input, as the row of a causal model's \<open>generate\<close>, which contains the prompt, is.
\<close>

theorem chat_usage_accounting:
  "(vllm_chat engine r = Inr resp \<longrightarrow> usage_total_is_sum resp \<and> usage_nonnegative resp) \<and>
   (model_server_chat (Some generate) (Some tok) r = Inr resp' \<longrightarrow>
      usage_total_is_sum resp' \<and>
      (\<exists>ids out.
         encode tok (format_chat_messages (messages r)) = Inr ids \<and>
         generate ids (generation_kwargs r) = Inr out \<and>
         usage resp' ''prompt_tokens'' = Some (int (length ids)) \<and>
         usage resp' ''completion_tokens'' = Some (int (length out) - int (length ids)) \<and>
         (usage_nonnegative resp' \<longleftrightarrow> length ids \<le> length out)))"
proof (intro conjI impI)
  assume "vllm_chat engine r = Inr resp"
  then show "usage_total_is_sum resp" and "usage_nonnegative resp"
    by (auto simp: vllm_chat_def Let_def usage_dict_total usage_dict_nonnegative
        split: option.splits sum.splits list.splits)
next
  assume "model_server_chat (Some generate) (Some tok) r = Inr resp'"
  then show "usage_total_is_sum resp'"
    by (auto simp: model_server_chat_def Let_def usage_dict_total
        split: option.splits sum.splits)
next
  assume ok: "model_server_chat (Some generate) (Some tok) r = Inr resp'"
  then obtain ids out reply where
    enc: "encode tok (format_chat_messages (messages r)) = Inr ids"
    and gen: "generate ids (generation_kwargs r) = Inr out"
    and resp': "resp' = \<lparr> response = reply,
                  usage = usage_dict (int (length ids)) (int (length out) - int (length ids)),
                  model = MODEL_NAME \<rparr>"
    by (simp add: model_server_chat_def Let_def split: sum.splits) blast
  have p: "usage resp' ''prompt_tokens'' = Some (int (length ids))"
    and c: "usage resp' ''completion_tokens'' = Some (int (length out) - int (length ids))"
    by (simp_all add: resp' usage_dict_def)
  have "usage_nonnegative resp' \<longleftrightarrow> length ids \<le> length out"
    by (simp add: usage_nonnegative_def p c)
  with enc gen p c show "\<exists>ids out.
         encode tok (format_chat_messages (messages r)) = Inr ids \<and>
         generate ids (generation_kwargs r) = Inr out \<and>
         usage resp' ''prompt_tokens'' = Some (int (length ids)) \<and>
         usage resp' ''completion_tokens'' = Some (int (length out) - int (length ids)) \<and>
         (usage_nonnegative resp' \<longleftrightarrow> length ids \<le> length out)"
    by blast
qed

theorem chat_usage_accounting_witness:
  "(\<exists>resp. vllm_chat (Some hello_engine) hi_request = Inr resp \<and>
      usage_total_is_sum resp \<and> usage_nonnegative resp \<and>
      usage resp ''total_tokens'' = Some 53) \<and>
   (\<exists>resp. model_server_chat (Some hello_model) (Some echo_tokenizer) hi_request = Inr resp \<and>
      usage_total_is_sum resp \<and> usage_nonnegative resp \<and>
      usage resp ''completion_tokens'' = Some 1 \<and>
      usage resp ''total_tokens'' = Some 53)"
proof -
  obtain resp where v: "vllm_chat (Some hello_engine) hi_request = Inr resp"
    and vt: "usage resp ''total_tokens'' = Some 53"
    by (simp add: vllm_chat_def hello_engine_def hi_request_def format_chat_messages_def
        dict_get_def usage_dict_def)
  obtain resp' where
    m: "model_server_chat (Some hello_model) (Some echo_tokenizer) hi_request = Inr resp'"
    and mt: "usage resp' ''total_tokens'' = Some 53"
    by (simp add: model_server_chat_def hello_model_def echo_tokenizer_def hi_request_def
        format_chat_messages_def dict_get_def usage_dict_def)
  from chat_usage_accounting[of "Some hello_engine" hi_request resp hello_model
      echo_tokenizer resp'] v m
  have a: "usage_total_is_sum resp \<and> usage_nonnegative resp"
    and b: "usage_total_is_sum resp'"
    and "\<exists>ids out.
         hello_model ids (generation_kwargs hi_request) = Inr out \<and>
         usage resp' ''completion_tokens'' = Some (int (length out) - int (length ids)) \<and>
         (usage_nonnegative resp' \<longleftrightarrow> length ids \<le> length out)"
    by blast+
  then obtain ids out where
    g: "hello_model ids (generation_kwargs hi_request) = Inr out"
    and c: "usage resp' ''completion_tokens'' = Some (int (length out) - int (length ids))"
    and n: "usage_nonnegative resp' \<longleftrightarrow> length ids \<le> length out"
    by blast
  from g have out: "out = ids @ [31373]" by (simp add: hello_model_def)
  from n out have nn: "usage_nonnegative resp'" by simp
  from c out have c1: "usage resp' ''completion_tokens'' = Some 1" by simp
  from v vt a m mt b nn c1 show ?thesis by blast
qed

section \<open>The health endpoint\<close>

lemma health_check_without_devices:
  "health_check parse h (Inr []) mem =
     Inr \<lparr> status = (if h \<noteq> None then ''healthy'' else ''unhealthy''),
           model_loaded = (h \<noteq> None), gpu_memory = [], system_memory = mem \<rparr>"
  by (simp add: health_check_def get_system_info_def)

lemma health_check_status:
  "health_check parse h probe mem = Inr snapshot \<Longrightarrow>
     (status snapshot = ''healthy'' \<longleftrightarrow> h \<noteq> None) \<and> model_loaded snapshot = (h \<noteq> None)"
  by (auto simp: health_check_def split: prod.splits sum.splits if_splits)

lemma health_check_failed_probe:
  "parse gpu_error_text = None \<Longrightarrow> health_check parse h (Inl e) mem = Inl ValidationError"
  by (simp add: health_check_def get_system_info_def)

text \<open>
  C4. The claim: the health operation never raises and always returns a complete
  snapshot. \<open>get_system_info\<close> stores a dict per device (and the marker text when the
  enumeration fails) in \<open>gpu_memory\<close>, while \<open>HealthResponse\<close> declares the values of
  \<open>gpu_memory\<close> as floats: whenever a device is enumerated, building the response raises
  \<open>ValidationError\<close>, whatever the model handle and the number parser are. (The failed
  probe raises as well, unless the parser reads the marker text as a number.)
\<close>

theorem health_check_raises_with_device:
  "health_check parse None (Inr [sample_gpu]) 50 = Inl ValidationError \<and>
   health_check parse (Some hello_model) (Inr [sample_gpu]) 50 = Inl ValidationError \<and>
   health_check parse h (Inr (g # gs)) mem = Inl ValidationError"
  by (simp add: health_check_def get_system_info_def enumerate_eq_zip gpu_entry_def
      upt_rec[of 0])

section \<open>Alerts on the API status\<close>

lemma gpu_alerts_no_api: "\<not> list_ex is_api_alert (gpu_alerts g)"
  by (induction g rule: gpu_alerts.induct)
     (auto simp: is_api_alert_def split: gpu_info.splits option.splits)

lemma system_alerts_no_api: "\<not> list_ex is_api_alert (system_alerts sys)"
  using gpu_alerts_no_api by (simp add: system_alerts_def Let_def is_api_alert_def)

lemma performance_alerts_no_api: "\<not> list_ex is_api_alert (performance_alerts perf)"
  by (simp add: performance_alerts_def Let_def is_api_alert_def)

text \<open>
  C9. For every metrics record with an \<open>api_health\<close> entry, \<open>check_alerts\<close> returns an
  API-status alert exactly when the entry's status is not \<open>healthy\<close>. When the health probe
  failed and the entry has no status at all, the alert shows \<open>unknown\<close>; otherwise it shows
  the status.
\<close>

theorem api_status_alert:
  "api_health m = Some api \<Longrightarrow>
     (list_ex is_api_alert (check_alerts m) \<longleftrightarrow> api ''status'' \<noteq> Some ''healthy'') \<and>
     (api ''status'' = None \<longrightarrow> ApiStatusAbnormal ''unknown'' \<in> set (check_alerts m)) \<and>
     (\<forall>s. api ''status'' = Some s \<and> s \<noteq> ''healthy'' \<longrightarrow>
        ApiStatusAbnormal s \<in> set (check_alerts m))"
  using system_alerts_no_api performance_alerts_no_api
  by (auto simp: check_alerts_def api_alerts_def is_api_alert_def dict_get_def
      split: option.splits)

theorem api_status_alert_witness:
  "api_health failed_record = Some [''error'' \<mapsto> ''HTTP 500''] \<and>
   list_ex is_api_alert (check_alerts failed_record) \<and>
   ApiStatusAbnormal ''unknown'' \<in> set (check_alerts failed_record) \<and>
   api_health busy_record = Some [''status'' \<mapsto> ''healthy''] \<and>
   \<not> list_ex is_api_alert (check_alerts busy_record)"
proof -
  have f: "api_health failed_record = Some [''error'' \<mapsto> ''HTTP 500'']"
    by (simp add: failed_record_def)
  have b: "api_health busy_record = Some [''status'' \<mapsto> ''healthy'']"
    by (simp add: busy_record_def)
  from api_status_alert[OF f] api_status_alert[OF b] f b show ?thesis by simp
qed

section \<open>The rolling log\<close>









section \<open>The summary report\<close>

lemma generate_summary_report_log_file: "generate_summary_report (log_file rs) = summarize rs"
  by (simp add: generate_summary_report_def log_file_def)

lemma count_statuses_lookup:
  "dict_get (map_of (count_statuses ss acc)) s 0 = count_list ss s + dict_get (map_of acc) s 0"
  by (induction ss arbitrary: acc) (simp_all add: update_conv' dict_get_def)

lemma count_statuses_distinct:
  "distinct (map fst acc) \<Longrightarrow> distinct (map fst (count_statuses ss acc))"
  by (induction ss arbitrary: acc) (simp_all add: distinct_update)

lemma count_statuses_keys: "fst ` set (count_statuses ss acc) = set ss \<union> fst ` set acc"
  by (induction ss arbitrary: acc) (auto simp: dom_update)

lemma count_list_map_filter: "count_list (map f xs) y = length (filter (\<lambda>x. f x = y) xs)"
  by (induction xs) simp_all

lemma count_statuses_entry:
  assumes "(st, n) \<in> set (count_statuses (map status_value rs) [])"
  shows "n = length (filter (\<lambda>x. status_value x = st) rs)"
proof -
  have "distinct (map fst (count_statuses (map status_value rs) []))"
    by (rule count_statuses_distinct) simp
  with assms have "map_of (count_statuses (map status_value rs) []) st = Some n"
    by simp
  then have "dict_get (map_of (count_statuses (map status_value rs) [])) st 0 = n"
    by (simp add: dict_get_def)
  then have "n = count_list (map status_value rs) st + dict_get (map_of []) st 0"
    by (simp only: count_statuses_lookup)
  then show ?thesis
    by (simp add: count_list_map_filter dict_get_def)
qed

lemma status_lines_entry:
  assumes "(st, n, pct) \<in> set (map (\<lambda>(s, n). (s, n, of_nat n / of_nat tot * 100))
                                (count_statuses (map status_value rs) []))"
  shows "n = length (filter (\<lambda>x. status_value x = st) rs) \<and>
         pct = of_nat n / of_nat tot * 100"
proof -
  from assms have "(st, n) \<in> set (count_statuses (map status_value rs) [])"
    and "pct = of_nat n / of_nat tot * 100"
    by auto
  then show ?thesis using count_statuses_entry by blast
qed

lemma summarize_Report:
  assumes "rs \<noteq> []"
  shows "\<exists>s. summarize rs = Report s \<and> total_records s = length rs \<and>
           cpu_stats s = aggregate (filter (\<lambda>v. v > 0) (map cpu_value rs)) \<and>
           memory_stats s = aggregate (filter (\<lambda>v. v > 0) (map memory_value rs)) \<and>
           response_stats s = aggregate (filter (\<lambda>v. v > 0) (map response_value rs)) \<and>
           status_lines s =
             map (\<lambda>(s, n). (s, n, of_nat n / of_nat (length rs) * 100))
               (count_statuses (map status_value rs) [])"
  using assms by (cases rs) (simp_all add: summarize_def Let_def)

text \<open>A missing value is read as 0 by the defaults of \<open>get\<close>.\<close>

lemma missing_values_are_zero:
  "system r = None \<Longrightarrow> cpu_value r = 0 \<and> memory_value r = 0"
  "performance r = None \<Longrightarrow> response_value r = 0"
  "api_health r = None \<Longrightarrow> status_value r = ''unknown''"
  by (simp_all add: cpu_value_def memory_value_def response_value_def status_value_def
      sub_dict_def dict_get_def)

text \<open>
  C10. In the summary of a log, a record whose cpu\_percent (memory percent, probe
  response\_time) is missing, 0 or negative leaves the mean, maximum and minimum of that
  figure as they are without the record, while it is counted in the number of records and
  in the table of health statuses: every line of the table gives the number of all records
  with that status and its share of all records in percent.
\<close>

theorem summary_skips_nonpositive:
  assumes "rs1 @ rs2 \<noteq> []"
  shows "\<exists>s s'. generate_summary_report (log_file (rs1 @ rs2)) = Report s \<and>
           generate_summary_report (log_file (rs1 @ r # rs2)) = Report s' \<and>
           (cpu_value r \<le> 0 \<longrightarrow> cpu_stats s' = cpu_stats s) \<and>
           (memory_value r \<le> 0 \<longrightarrow> memory_stats s' = memory_stats s) \<and>
           (response_value r \<le> 0 \<longrightarrow> response_stats s' = response_stats s) \<and>
           total_records s' = Suc (total_records s) \<and>
           (\<forall>st n pct. (st, n, pct) \<in> set (status_lines s') \<longrightarrow>
              n = length (filter (\<lambda>x. status_value x = st) (rs1 @ r # rs2)) \<and>
              pct = of_nat n / of_nat (length (rs1 @ r # rs2)) * 100) \<and>
           (\<exists>n pct. (status_value r, n, pct) \<in> set (status_lines s'))"
proof -
  from summarize_Report[OF assms] obtain s where s: "summarize (rs1 @ rs2) = Report s"
    "total_records s = length (rs1 @ rs2)"
    "cpu_stats s = aggregate (filter (\<lambda>v. v > 0) (map cpu_value (rs1 @ rs2)))"
    "memory_stats s = aggregate (filter (\<lambda>v. v > 0) (map memory_value (rs1 @ rs2)))"
    "response_stats s = aggregate (filter (\<lambda>v. v > 0) (map response_value (rs1 @ rs2)))"
    by blast
  have ne: "rs1 @ r # rs2 \<noteq> []" by simp
  from summarize_Report[OF ne] obtain s' where s': "summarize (rs1 @ r # rs2) = Report s'"
    "total_records s' = length (rs1 @ r # rs2)"
    "cpu_stats s' = aggregate (filter (\<lambda>v. v > 0) (map cpu_value (rs1 @ r # rs2)))"
    "memory_stats s' = aggregate (filter (\<lambda>v. v > 0) (map memory_value (rs1 @ r # rs2)))"
    "response_stats s' = aggregate (filter (\<lambda>v. v > 0) (map response_value (rs1 @ r # rs2)))"
    "status_lines s' =
       map (\<lambda>(s, n). (s, n, of_nat n / of_nat (length (rs1 @ r # rs2)) * 100))
         (count_statuses (map status_value (rs1 @ r # rs2)) [])"
    by blast
  have cpu: "cpu_value r \<le> 0 \<longrightarrow> cpu_stats s' = cpu_stats s"
    by (simp add: s(3) s'(3))
  have mem: "memory_value r \<le> 0 \<longrightarrow> memory_stats s' = memory_stats s"
    by (simp add: s(4) s'(4))
  have rsp: "response_value r \<le> 0 \<longrightarrow> response_stats s' = response_stats s"
    by (simp add: s(5) s'(5))
  have tot: "total_records s' = Suc (total_records s)"
    by (simp add: s(2) s'(2))
  have lines: "\<forall>st n pct. (st, n, pct) \<in> set (status_lines s') \<longrightarrow>
              n = length (filter (\<lambda>x. status_value x = st) (rs1 @ r # rs2)) \<and>
              pct = of_nat n / of_nat (length (rs1 @ r # rs2)) * 100"
    unfolding s'(6) using status_lines_entry[of _ _ _ _ "rs1 @ r # rs2"] by blast
  have "status_value r \<in> fst ` set (count_statuses (map status_value (rs1 @ r # rs2)) [])"
    unfolding count_statuses_keys by simp
  then obtain n where
    "(status_value r, n) \<in> set (count_statuses (map status_value (rs1 @ r # rs2)) [])"
    by force
  then have own: "\<exists>n pct. (status_value r, n, pct) \<in> set (status_lines s')"
    unfolding s'(6) by force
  show ?thesis
    unfolding generate_summary_report_log_file
    using s(1) s'(1) cpu mem rsp tot lines own by blast
qed

theorem summary_skips_nonpositive_witness:
  "[] @ [busy_record] \<noteq> [] \<and> cpu_value failed_record \<le> 0 \<and>
   memory_value failed_record \<le> 0 \<and> response_value failed_record \<le> 0 \<and>
   (\<exists>s s'. generate_summary_report (log_file [busy_record]) = Report s \<and>
      generate_summary_report (log_file [failed_record, busy_record]) = Report s' \<and>
      cpu_stats s' = cpu_stats s \<and> memory_stats s' = memory_stats s \<and>
      response_stats s' = response_stats s \<and> total_records s' = 2 \<and>
      (\<exists>n pct. (''unknown'', n, pct) \<in> set (status_lines s')))"
proof -
  have c: "cpu_value failed_record \<le> 0" by (simp add: cpu_value_def failed_record_def)
  have m: "memory_value failed_record \<le> 0"
    by (simp add: memory_value_def failed_record_def sub_dict_def dict_get_def)
  have p: "response_value failed_record \<le> 0"
    by (simp add: response_value_def failed_record_def sub_dict_def dict_get_def)
  have st: "status_value failed_record = ''unknown''"
    by (simp add: status_value_def failed_record_def sub_dict_def dict_get_def)
  have ne: "[] @ [busy_record] \<noteq> []" by simp
  from summary_skips_nonpositive[OF ne, of failed_record] obtain s s' where
    "generate_summary_report (log_file ([] @ [busy_record])) = Report s"
    "generate_summary_report (log_file ([] @ failed_record # [busy_record])) = Report s'"
    "cpu_value failed_record \<le> 0 \<longrightarrow> cpu_stats s' = cpu_stats s"
    "memory_value failed_record \<le> 0 \<longrightarrow> memory_stats s' = memory_stats s"
    "response_value failed_record \<le> 0 \<longrightarrow> response_stats s' = response_stats s"
    "total_records s' = Suc (total_records s)"
    "\<exists>n pct. (status_value failed_record, n, pct) \<in> set (status_lines s')"
    by blast
  moreover from this(1) have "total_records s = 1"
    by (auto simp: generate_summary_report_log_file summarize_def Let_def)
  ultimately show ?thesis using c m p st by (intro conjI exI[of _ s] exI[of _ s']) simp_all
qed

end
